theory Spec2Isabelle
  imports Main
begin

section \<open>Data model (src/src/types/mailchimp.ts)\<close>

text \<open>
  The TypeScript interfaces become records. A field marked optional (\<open>?\<close>) or a value
  that can be \<open>undefined\<close> at run time is an \<open>option\<close>. Nested anonymous objects
  (\<open>login\<close>, \<open>stats\<close>, \<open>settings\<close>) are records of their own or are flattened with
  the path kept in the field name.
\<close>

record MailChimpTokenResponse =
  access_token :: string
  token_type :: string
  expires_in :: "nat option"
  refresh_token :: "string option"
  scope :: "string option"

record MailChimpLogin =
  email :: string
  login_id :: string
  login_name :: string
  login_email :: string

record MailChimpMetadata =
  dc :: string
  role :: string
  accountname :: string
  user_id :: int
  login :: MailChimpLogin
  api_endpoint :: string

record OAuthTokenRequest =
  code :: "string option"
  state :: "string option"

record CampaignRequest =
  listId :: "string option"
  subject :: "string option"
  content :: "string option"
  fromName :: "string option"
  replyTo :: "string option"

text \<open>One element of \<open>MailChimpListsApiResponse.lists\<close>; \<open>stats.member_count\<close> flattened.\<close>

record MailChimpApiList =
  list_id :: string
  list_name :: string
  stats_member_count :: int

record MailChimpListsApiResponse =
  lists :: "MailChimpApiList list"
  total_items :: int

record MailChimpCampaignApiResponse =
  campaign_id :: string
  campaign_status :: string
  campaign_type :: string
  create_time :: string
  settings_subject_line :: string
  settings_title :: string
  settings_from_name :: string
  settings_reply_to :: string

text \<open>\<open>connectedAt\<close> is a \<open>Date\<close>: modelled as the milliseconds it holds.\<close>

record UserSession =
  accessToken :: string
  metadata :: MailChimpMetadata
  connectedAt :: nat

record MailChimpConfig =
  clientId :: string
  clientSecret :: string
  redirectUri :: string

section \<open>JSON values and HTTP responses\<close>

datatype json =
  JNull
  | JBool bool
  | JNum int
  | JStr string
  | JArr "json list"
  | JObj "(string \<times> json) list"

text \<open>
  What a handler sends: \<open>res.status(n).json(v)\<close> with the headers it set before, or
  \<open>res.redirect(url)\<close>. A redirect URL is kept as its base and its query parameters in
  order, each value as it is before \<open>encodeURIComponent\<close> is applied to it.
\<close>

datatype Response =
  Json nat "(string \<times> string) list" json
  | Redirect string "(string \<times> string) list"

section \<open>Requests and the environment of a run\<close>

text \<open>
  A value of \<open>req.query\<close>: a string, or something else (an array or an object, which is
  always truthy), kept as the text JavaScript's string conversion gives for it.
\<close>

datatype QueryValue = QStr string | QOther string

record CallbackQuery =
  q_code :: "QueryValue option"
  q_state :: "QueryValue option"
  q_error :: "QueryValue option"
  q_error_description :: "QueryValue option"

text \<open>
  The parts of an express request the handlers read: \<open>req.ip\<close>, the header
  \<open>req.headers["x-session-id"]\<close>, \<open>req.query\<close> and \<open>req.body\<close>.
\<close>

record ('q, 'b) Request =
  ip :: "string option"
  x_session_id :: "string option"
  query :: 'q
  body :: 'b

text \<open>
  The nondeterministic reads of one handler run: \<open>Date.now()\<close> and
  \<open>Math.random().toString(36)\<close> inside \<open>generateSessionId\<close>, and \<open>new Date()\<close> inside
  \<open>storeUserSession\<close>.
\<close>

record Runtime =
  date_now :: nat
  math_random :: string
  new_date :: nat

text \<open>\<open>process.env\<close>, as far as index.ts reads it.\<close>

record ProcessEnv =
  FRONTEND_URL :: "string option"
  PORT :: "string option"

section \<open>The provider and the module state\<close>

text \<open>An outbound call of the service, with the arguments it is made with.\<close>

datatype Call =
  TokenExchange MailChimpConfig string
  | MetadataFetch string
  | ListsFetch string string
  | CreateCampaign string string string string string string
  | SetCampaignContent string string string string
  | SendCampaign string string string

text \<open>
  The provider answers each axios call with the response data, or the call throws; the
  error carries the raw diagnostic \<open>error.response?.data || error.message\<close>, a string
  here.
\<close>

record Provider =
  oauth_token :: "MailChimpConfig \<Rightarrow> string \<Rightarrow> string + MailChimpTokenResponse"
  oauth_metadata :: "string \<Rightarrow> string + MailChimpMetadata"
  lists_get :: "string \<Rightarrow> string \<Rightarrow> string + MailChimpListsApiResponse"
  campaigns_post ::
    "string \<Rightarrow> string \<Rightarrow> string \<Rightarrow> string \<Rightarrow> string \<Rightarrow> string \<Rightarrow> string + MailChimpCampaignApiResponse"
  campaign_content_put :: "string \<Rightarrow> string \<Rightarrow> string \<Rightarrow> string \<Rightarrow> string + unit"
  campaign_send_post :: "string \<Rightarrow> string \<Rightarrow> string \<Rightarrow> string + unit"

text \<open>
  The state of the process: the module-level \<open>userSessions\<close> map of
  services/mailchimpService, the outbound calls made so far, in order, and the lines
  written with \<open>console.error\<close> (label and diagnostic).
\<close>

record World =
  userSessions :: "string \<rightharpoonup> UserSession"
  outbound :: "Call list"
  console :: "(string \<times> string) list"

text \<open>
  An instance of \<open>class MailChimpService\<close>: its only field is \<open>config\<close>. The session
  map is not a field of the instance.
\<close>

record MailChimpService =
  config :: MailChimpConfig

section \<open>JavaScript helpers\<close>

text \<open>\<open>a || b\<close> on a possibly undefined string: the empty string is falsy.\<close>

definition js_or :: "string option \<Rightarrow> string \<Rightarrow> string" where
  "js_or a b = (case a of None \<Rightarrow> b | Some s \<Rightarrow> if s = [] then b else s)"

definition truthy :: "string option \<Rightarrow> bool" where
  "truthy a = (case a of None \<Rightarrow> False | Some s \<Rightarrow> s \<noteq> [])"

definition q_truthy :: "QueryValue option \<Rightarrow> bool" where
  "q_truthy a = (case a of None \<Rightarrow> False | Some (QStr s) \<Rightarrow> s \<noteq> [] | Some (QOther _) \<Rightarrow> True)"

definition q_text :: "QueryValue \<Rightarrow> string" where
  "q_text v = (case v of QStr s \<Rightarrow> s | QOther s \<Rightarrow> s)"

text \<open>A number or \<open>undefined\<close> concatenated to a string.\<close>

fun show_nat :: "nat \<Rightarrow> string" where
  "show_nat n =
     (if n < 10 then [''0123456789'' ! n]
      else show_nat (n div 10) @ [''0123456789'' ! (n mod 10)])"

definition show_ip :: "string option \<Rightarrow> string" where
  "show_ip a = (case a of None \<Rightarrow> ''undefined'' | Some s \<Rightarrow> s)"

section \<open>services/mailchimpService: MailChimpService\<close>

text \<open>
  Each method takes the instance and the world and returns the world it leaves. An
  async method that can throw returns \<open>Inl\<close> of the thrown error's message.
\<close>

definition exchangeCodeForToken ::
  "Provider \<Rightarrow> MailChimpService \<Rightarrow> string \<Rightarrow> World \<Rightarrow> (string + MailChimpTokenResponse) \<times> World" where
  "exchangeCodeForToken P svc c w =
     (let w1 = w\<lparr>outbound := outbound w @ [TokenExchange (config svc) c]\<rparr> in
      case oauth_token P (config svc) c of
        Inr d \<Rightarrow> (Inr d, w1)
      | Inl raw \<Rightarrow>
          (Inl ''Failed to exchange code for token'',
           w1\<lparr>console := console w1 @ [(''Token exchange error:'', raw)]\<rparr>))"

definition getUserMetadata ::
  "Provider \<Rightarrow> MailChimpService \<Rightarrow> string \<Rightarrow> World \<Rightarrow> (string + MailChimpMetadata) \<times> World" where
  "getUserMetadata P svc tok w =
     (let w1 = w\<lparr>outbound := outbound w @ [MetadataFetch tok]\<rparr> in
      case oauth_metadata P tok of
        Inr d \<Rightarrow> (Inr d, w1)
      | Inl raw \<Rightarrow>
          (Inl ''Failed to fetch user metadata'',
           w1\<lparr>console := console w1 @ [(''Metadata fetch error:'', raw)]\<rparr>))"

definition storeUserSession ::
  "Runtime \<Rightarrow> MailChimpService \<Rightarrow> string \<Rightarrow> string \<Rightarrow> MailChimpMetadata \<Rightarrow> World \<Rightarrow> World" where
  "storeUserSession rt svc sessionId tok md w =
     w\<lparr>userSessions := (userSessions w)(sessionId \<mapsto>
         \<lparr>accessToken = tok, metadata = md, connectedAt = new_date rt\<rparr>)\<rparr>"

definition getUserSession :: "MailChimpService \<Rightarrow> string \<Rightarrow> World \<Rightarrow> UserSession option" where
  "getUserSession svc sessionId w = userSessions w sessionId"

definition removeUserSession :: "MailChimpService \<Rightarrow> string \<Rightarrow> World \<Rightarrow> World" where
  "removeUserSession svc sessionId w = w\<lparr>userSessions := (userSessions w)(sessionId := None)\<rparr>"

definition getLists ::
  "Provider \<Rightarrow> MailChimpService \<Rightarrow> string \<Rightarrow> string \<Rightarrow> World
     \<Rightarrow> (string + MailChimpListsApiResponse) \<times> World" where
  "getLists P svc tok datacenter w =
     (let w1 = w\<lparr>outbound := outbound w @ [ListsFetch tok datacenter]\<rparr> in
      case lists_get P tok datacenter of
        Inr d \<Rightarrow> (Inr d, w1)
      | Inl raw \<Rightarrow>
          (Inl ''Failed to fetch email lists'',
           w1\<lparr>console := console w1 @ [(''Lists fetch error:'', raw)]\<rparr>))"

definition createCampaign ::
  "Provider \<Rightarrow> MailChimpService \<Rightarrow> string \<Rightarrow> string \<Rightarrow> string \<Rightarrow> string \<Rightarrow> string \<Rightarrow> string \<Rightarrow> World
     \<Rightarrow> (string + MailChimpCampaignApiResponse) \<times> World" where
  "createCampaign P svc tok datacenter lid subj fname rto w =
     (let w1 = w\<lparr>outbound := outbound w @ [CreateCampaign tok datacenter lid subj fname rto]\<rparr> in
      case campaigns_post P tok datacenter lid subj fname rto of
        Inr d \<Rightarrow> (Inr d, w1)
      | Inl raw \<Rightarrow>
          (Inl ''Failed to create campaign'',
           w1\<lparr>console := console w1 @ [(''Campaign creation error:'', raw)]\<rparr>))"

definition setCampaignContent ::
  "Provider \<Rightarrow> MailChimpService \<Rightarrow> string \<Rightarrow> string \<Rightarrow> string \<Rightarrow> string \<Rightarrow> World
     \<Rightarrow> (string + unit) \<times> World" where
  "setCampaignContent P svc tok datacenter cid html w =
     (let w1 = w\<lparr>outbound := outbound w @ [SetCampaignContent tok datacenter cid html]\<rparr> in
      case campaign_content_put P tok datacenter cid html of
        Inr d \<Rightarrow> (Inr (), w1)
      | Inl raw \<Rightarrow>
          (Inl ''Failed to set campaign content'',
           w1\<lparr>console := console w1 @ [(''Campaign content error:'', raw)]\<rparr>))"

definition sendCampaign ::
  "Provider \<Rightarrow> MailChimpService \<Rightarrow> string \<Rightarrow> string \<Rightarrow> string \<Rightarrow> World \<Rightarrow> (string + unit) \<times> World" where
  "sendCampaign P svc tok datacenter cid w =
     (let w1 = w\<lparr>outbound := outbound w @ [SendCampaign tok datacenter cid]\<rparr> in
      case campaign_send_post P tok datacenter cid of
        Inr d \<Rightarrow> (Inr (), w1)
      | Inl raw \<Rightarrow>
          (Inl ''Failed to send campaign'',
           w1\<lparr>console := console w1 @ [(''Campaign send error:'', raw)]\<rparr>))"

section \<open>Helpers shared by index.ts and routes/mailchimp\<close>

text \<open>
  \<open>generateSessionId\<close> is defined twice, word for word the same, in index.ts and in
  routes/mailchimp: \<open>req.ip + "-" + Date.now() + "-" + Math.random().toString(36)\<close>.
\<close>

definition generateSessionId :: "Runtime \<Rightarrow> ('q, 'b) Request \<Rightarrow> string" where
  "generateSessionId rt req =
     show_ip (ip req) @ ''-'' @ show_nat (date_now rt) @ ''-'' @ math_random rt"

text \<open>routes/mailchimp: \<open>req.headers["x-session-id"] || generateSessionId(req)\<close>.\<close>

definition getSessionId :: "Runtime \<Rightarrow> ('q, 'b) Request \<Rightarrow> string" where
  "getSessionId rt req = js_or (x_session_id req) (generateSessionId rt req)"

text \<open>The two object literals of the \<open>ApiResponse\<close> envelope, as the handlers write them.\<close>

definition api_success :: "json \<Rightarrow> json" where
  "api_success d = JObj [(''success'', JBool True), (''data'', d)]"

definition api_failure :: "string \<Rightarrow> json" where
  "api_failure msg = JObj [(''success'', JBool False), (''message'', JStr msg), (''data'', JNull)]"

text \<open>
  A router handler's \<open>catch (error)\<close>: the error is logged and a 500 is sent with
  \<open>error.message || fallback\<close>.
\<close>

definition catch_500 :: "string \<Rightarrow> string \<Rightarrow> string \<Rightarrow> World \<Rightarrow> Response \<times> World" where
  "catch_500 label fallback msg w =
     (Json 500 [] (api_failure (js_or (Some msg) fallback)),
      w\<lparr>console := console w @ [(label, msg)]\<rparr>)"

text \<open>The string of a body field that the handler has already checked to be truthy.\<close>

definition str_val :: "string option \<Rightarrow> string" where
  "str_val a = (case a of None \<Rightarrow> [] | Some s \<Rightarrow> s)"

section \<open>index.ts\<close>

definition frontendCallbackUrl :: "ProcessEnv \<Rightarrow> string" where
  "frontendCallbackUrl env = js_or (FRONTEND_URL env) ''http://localhost:8090'' @ ''/oauth-verify/mailchimp''"

text \<open>The \<open>catch\<close> of the callback handler: a redirect carrying the error's message.\<close>

definition callback_catch :: "ProcessEnv \<Rightarrow> string \<Rightarrow> World \<Rightarrow> Response \<times> World" where
  "callback_catch env msg w =
     (Redirect (frontendCallbackUrl env)
        [(''error'', ''processing_failed''),
         (''error_description'', js_or (Some msg) ''Failed to process OAuth callback'')],
      w\<lparr>console := console w @ [(''OAuth callback processing error:'', msg)]\<rparr>)"

text \<open>\<open>app.get("/oauth-verify/mailchimp", ...)\<close>, on the service instance of index.ts.\<close>

definition oauth_callback_handler ::
  "ProcessEnv \<Rightarrow> Runtime \<Rightarrow> Provider \<Rightarrow> MailChimpService \<Rightarrow> (CallbackQuery, 'b) Request \<Rightarrow> World
     \<Rightarrow> Response \<times> World" where
  "oauth_callback_handler env rt P svc req w =
     (let q = query req in
      if q_truthy (q_error q) then
        (Redirect (frontendCallbackUrl env)
           [(''error'', (case q_error q of None \<Rightarrow> [] | Some e \<Rightarrow> q_text e)),
            (''error_description'',
               (if q_truthy (q_error_description q)
                then (case q_error_description q of None \<Rightarrow> [] | Some d \<Rightarrow> q_text d)
                else ''OAuth authorization failed''))],
         w\<lparr>console := console w @
            [(''OAuth error from MailChimp:'',
              (case q_error q of None \<Rightarrow> [] | Some e \<Rightarrow> q_text e) @ '' '' @
              (case q_error_description q of None \<Rightarrow> ''undefined'' | Some d \<Rightarrow> q_text d))]\<rparr>)
      else
        (case q_code q of
           Some (QStr c) \<Rightarrow>
             if c = [] then
               (Redirect (frontendCallbackUrl env)
                  [(''error'', ''missing_code''),
                   (''error_description'', ''Authorization code not received'')], w)
             else
               (case exchangeCodeForToken P svc c w of
                  (Inl msg, w1) \<Rightarrow> callback_catch env msg w1
                | (Inr tokenResponse, w1) \<Rightarrow>
                    (case getUserMetadata P svc (access_token tokenResponse) w1 of
                       (Inl msg, w2) \<Rightarrow> callback_catch env msg w2
                     | (Inr md, w2) \<Rightarrow>
                         (let sessionId = generateSessionId rt req;
                              w3 = storeUserSession rt svc sessionId (access_token tokenResponse) md w2
                          in (Redirect (frontendCallbackUrl env)
                                [(''success'', ''true''),
                                 (''session_id'', sessionId),
                                 (''account_name'', accountname md),
                                 (''user_email'', email (login md))], w3))))
         | _ \<Rightarrow>
             (Redirect (frontendCallbackUrl env)
                [(''error'', ''missing_code''),
                 (''error_description'', ''Authorization code not received'')], w)))"

text \<open>\<open>app.get("/", ...)\<close>: the health payload; \<open>port = process.env.PORT || 3001\<close>.\<close>

definition health_handler :: "ProcessEnv \<Rightarrow> Response" where
  "health_handler env =
     Json 200 []
       (JObj [(''message'', JStr ''MailChimp Backend API is running!''),
              (''version'', JStr ''1.0.0''),
              (''documentation'', JStr (''http://localhost:'' @ js_or (PORT env) ''3001'' @ ''/api-docs'')),
              (''endpoints'', JArr [JStr ''GET /oauth-verify/mailchimp (OAuth callback)'',
                                    JStr ''GET /api/mailchimp/connect'',
                                    JStr ''POST /api/mailchimp/oauth/token'',
                                    JStr ''GET /api/mailchimp/status'',
                                    JStr ''GET /api/mailchimp/lists'',
                                    JStr ''POST /api/mailchimp/campaign/send'',
                                    JStr ''POST /api/mailchimp/disconnect''])])"

text \<open>The error-handling middleware and the 404 handler.\<close>

definition error_middleware :: "string \<Rightarrow> World \<Rightarrow> Response \<times> World" where
  "error_middleware err w =
     (Json 500 [] (api_failure ''Internal server error''),
      w\<lparr>console := console w @ [(''Unhandled error:'', err)]\<rparr>)"

definition not_found_handler :: Response where
  "not_found_handler = Json 404 [] (api_failure ''Endpoint not found'')"

section \<open>routes/mailchimp\<close>

text \<open>
  Every handler runs on the router's own service instance. Its \<open>try\<close> body is the
  \<open>case\<close> chain; an \<open>Inl\<close> from a service method goes to the handler's \<open>catch\<close>.
\<close>

definition connect_handler :: Response where
  "connect_handler = Json 200 [] (api_success (JObj [(''message'', JStr ''OAuth connection initiated'')]))"

definition oauth_token_handler ::
  "Runtime \<Rightarrow> Provider \<Rightarrow> MailChimpService \<Rightarrow> ('q, OAuthTokenRequest) Request \<Rightarrow> World
     \<Rightarrow> Response \<times> World" where
  "oauth_token_handler rt P svc req w =
     (if \<not> truthy (code (body req)) then
        (Json 400 [] (api_failure ''Authorization code is required''), w)
      else
        (case exchangeCodeForToken P svc (str_val (code (body req))) w of
           (Inl msg, w1) \<Rightarrow>
             catch_500 ''OAuth token exchange error:'' ''Failed to exchange OAuth token'' msg w1
         | (Inr tokenResponse, w1) \<Rightarrow>
             (case getUserMetadata P svc (access_token tokenResponse) w1 of
                (Inl msg, w2) \<Rightarrow>
                  catch_500 ''OAuth token exchange error:'' ''Failed to exchange OAuth token'' msg w2
              | (Inr md, w2) \<Rightarrow>
                  (let sessionId = getSessionId rt req;
                       w3 = storeUserSession rt svc sessionId (access_token tokenResponse) md w2
                   in (Json 200 [(''X-Session-Id'', sessionId)]
                         (api_success
                            (JObj [(''accountName'', JStr (accountname md)),
                                   (''userEmail'', JStr (email (login md))),
                                   (''isConnected'', JBool True)])), w3)))))"

definition status_handler ::
  "Runtime \<Rightarrow> MailChimpService \<Rightarrow> ('q, 'b) Request \<Rightarrow> World \<Rightarrow> Response \<times> World" where
  "status_handler rt svc req w =
     (let sessionId = getSessionId rt req in
      case getUserSession svc sessionId w of
        None \<Rightarrow> (Json 200 [] (api_success (JObj [(''isConnected'', JBool False)])), w)
      | Some session \<Rightarrow>
          (Json 200 []
             (api_success
                (JObj [(''isConnected'', JBool True),
                       (''accountName'', JStr (accountname (metadata session))),
                       (''userEmail'', JStr (email (login (metadata session))))])), w))"

definition lists_handler ::
  "Runtime \<Rightarrow> Provider \<Rightarrow> MailChimpService \<Rightarrow> ('q, 'b) Request \<Rightarrow> World \<Rightarrow> Response \<times> World" where
  "lists_handler rt P svc req w =
     (let sessionId = getSessionId rt req in
      case getUserSession svc sessionId w of
        None \<Rightarrow> (Json 401 [] (api_failure ''Not connected to MailChimp''), w)
      | Some session \<Rightarrow>
          (case getLists P svc (accessToken session) (dc (metadata session)) w of
             (Inl msg, w1) \<Rightarrow> catch_500 ''Lists fetch error:'' ''Failed to fetch email lists'' msg w1
           | (Inr listsResponse, w1) \<Rightarrow>
               (Json 200 []
                  (api_success
                     (JObj [(''lists'',
                        JArr (map (\<lambda>l. JObj [(''id'', JStr (list_id l)),
                                             (''name'', JStr (list_name l)),
                                             (''stats'', JObj [(''member_count'', JNum (stats_member_count l))])])
                                  (lists listsResponse)))])), w1)))"

definition campaign_send_handler ::
  "Runtime \<Rightarrow> Provider \<Rightarrow> MailChimpService \<Rightarrow> ('q, CampaignRequest) Request \<Rightarrow> World
     \<Rightarrow> Response \<times> World" where
  "campaign_send_handler rt P svc req w =
     (let b = body req in
      if \<not> truthy (listId b) \<or> \<not> truthy (subject b) \<or> \<not> truthy (content b)
           \<or> \<not> truthy (fromName b) \<or> \<not> truthy (replyTo b) then
        (Json 400 []
           (api_failure ''Missing required fields: listId, subject, content, fromName, replyTo''), w)
      else
        (let sessionId = getSessionId rt req in
         case getUserSession svc sessionId w of
           None \<Rightarrow> (Json 401 [] (api_failure ''Not connected to MailChimp''), w)
         | Some session \<Rightarrow>
             (case createCampaign P svc (accessToken session) (dc (metadata session))
                     (str_val (listId b)) (str_val (subject b)) (str_val (fromName b))
                     (str_val (replyTo b)) w of
                (Inl msg, w1) \<Rightarrow> catch_500 ''Campaign send error:'' ''Failed to send campaign'' msg w1
              | (Inr campaign, w1) \<Rightarrow>
                  (case setCampaignContent P svc (accessToken session) (dc (metadata session))
                          (campaign_id campaign) (str_val (content b)) w1 of
                     (Inl msg, w2) \<Rightarrow>
                       catch_500 ''Campaign send error:'' ''Failed to send campaign'' msg w2
                   | (Inr u, w2) \<Rightarrow>
                       (case sendCampaign P svc (accessToken session) (dc (metadata session))
                               (campaign_id campaign) w2 of
                          (Inl msg, w3) \<Rightarrow>
                            catch_500 ''Campaign send error:'' ''Failed to send campaign'' msg w3
                        | (Inr u', w3) \<Rightarrow>
                            (Json 200 []
                               (api_success
                                  (JObj [(''campaignId'', JStr (campaign_id campaign)),
                                         (''status'', JStr ''sent''),
                                         (''message'', JStr ''Campaign sent successfully'')])),
                             w3))))))"

definition disconnect_handler ::
  "Runtime \<Rightarrow> MailChimpService \<Rightarrow> ('q, 'b) Request \<Rightarrow> World \<Rightarrow> Response \<times> World" where
  "disconnect_handler rt svc req w =
     (let sessionId = getSessionId rt req in
      (Json 200 [] (api_success (JObj [(''message'', JStr ''Successfully disconnected from MailChimp'')])),
       removeUserSession svc sessionId w))"

section \<open>Notions the properties are stated with\<close>

text \<open>
  The response envelope of the specification, \<open>{ success: bool, message?: string,
  data: T | null }\<close>: on success \<open>data\<close> is present and not null and there is no
  \<open>message\<close>; on failure \<open>message\<close> is a string and \<open>data\<close> is null.
\<close>

definition envelope_ok :: "json \<Rightarrow> bool" where
  "envelope_ok j =
     (case j of
        JObj fs \<Rightarrow>
          (case map_of fs ''success'' of
             Some (JBool ok) \<Rightarrow>
               (if ok then
                  (case map_of fs ''data'' of
                     None \<Rightarrow> False
                   | Some d \<Rightarrow> d \<noteq> JNull \<and> map_of fs ''message'' = None)
                else
                  (case map_of fs ''message'' of
                     Some (JStr m) \<Rightarrow> map_of fs ''data'' = Some JNull
                   | _ \<Rightarrow> False))
           | _ \<Rightarrow> False)
      | _ \<Rightarrow> False)"

text \<open>The JSON body of a response; a redirect has none.\<close>

definition json_body :: "Response \<Rightarrow> json option" where
  "json_body r = (case r of Json st hs j \<Rightarrow> Some j | Redirect u ps \<Rightarrow> None)"

text \<open>A JSON response whose body has the envelope.\<close>

definition enveloped :: "Response \<Rightarrow> bool" where
  "enveloped r = (case r of Json st hs j \<Rightarrow> envelope_ok j | Redirect u ps \<Rightarrow> False)"


text \<open>The outbound calls that a run from \<open>w\<close> to \<open>w'\<close> has added.\<close>

definition run_calls :: "World \<Rightarrow> World \<Rightarrow> Call list" where
  "run_calls w w' = drop (length (outbound w)) (outbound w')"

text \<open>
  The token exchange of a run succeeded: among its calls there is a token exchange
  that the provider answered; \<open>exchanged\<close> gives the answer. Likewise the metadata
  fetch, with \<open>fetched\<close>.
\<close>

fun exchanged :: "Provider \<Rightarrow> Call list \<Rightarrow> MailChimpTokenResponse option" where
  "exchanged P [] = None"
| "exchanged P (TokenExchange cfg c # cs) =
     (case oauth_token P cfg c of Inr tr \<Rightarrow> Some tr | Inl raw \<Rightarrow> exchanged P cs)"
| "exchanged P (other # cs) = exchanged P cs"

fun fetched :: "Provider \<Rightarrow> Call list \<Rightarrow> MailChimpMetadata option" where
  "fetched P [] = None"
| "fetched P (MetadataFetch t # cs) =
     (case oauth_metadata P t of Inr md \<Rightarrow> Some md | Inl raw \<Rightarrow> fetched P cs)"
| "fetched P (other # cs) = fetched P cs"

text \<open>
  What the OAuth flow leaves in the session map, in the words of the specification:
  the record under \<open>sid\<close> when both steps succeeded, the map as it was otherwise.
\<close>

definition flow_store ::
  "Runtime \<Rightarrow> string \<Rightarrow> MailChimpTokenResponse option \<Rightarrow> MailChimpMetadata option
     \<Rightarrow> (string \<rightharpoonup> UserSession) \<Rightarrow> (string \<rightharpoonup> UserSession)" where
  "flow_store rt sid ex fe m =
     (case ex of
        None \<Rightarrow> m
      | Some tr \<Rightarrow>
          (case fe of
             None \<Rightarrow> m
           | Some md \<Rightarrow>
               m(sid \<mapsto> \<lparr>accessToken = access_token tr, metadata = md,
                           connectedAt = new_date rt\<rparr>)))"

section \<open>A concrete provider, state and requests\<close>

text \<open>
  The scenario of the specification: the code \<open>abc123\<close> is exchanged for the token
  \<open>tok_1\<close>, whose metadata is the account Acme on datacenter us1; every other code or
  token is refused. Setting the content \<open><bad>\<close> is refused; every other campaign
  call is accepted.
\<close>

definition ex_config :: MailChimpConfig where
  "ex_config = \<lparr>clientId = ''client'', clientSecret = ''secret'',
                 redirectUri = ''http://127.0.0.1:3001/oauth-verify/mailchimp''\<rparr>"

definition ex_service :: MailChimpService where
  "ex_service = \<lparr>config = ex_config\<rparr>"

definition ex_token :: MailChimpTokenResponse where
  "ex_token = \<lparr>access_token = ''tok_1'', token_type = ''bearer'', expires_in = None,
                refresh_token = None, scope = None\<rparr>"

definition ex_metadata :: MailChimpMetadata where
  "ex_metadata =
     \<lparr>dc = ''us1'', role = ''owner'', accountname = ''Acme'', user_id = 1,
      login = \<lparr>email = ''a@acme.com'', login_id = ''1'', login_name = ''a'',
               login_email = ''a@acme.com''\<rparr>,
      api_endpoint = ''https://us1.api.mailchimp.com''\<rparr>"

definition ex_campaign :: MailChimpCampaignApiResponse where
  "ex_campaign =
     \<lparr>campaign_id = ''c42'', campaign_status = ''save'', campaign_type = ''regular'',
      create_time = ''2024-01-01'', settings_subject_line = ''Hi'',
      settings_title = ''Campaign - Hi'', settings_from_name = ''Acme'',
      settings_reply_to = ''a@acme.com''\<rparr>"

definition ex_provider :: "string \<Rightarrow> Provider" where
  "ex_provider raw =
     \<lparr>oauth_token = (\<lambda>cfg c. if c = ''abc123'' then Inr ex_token else Inl raw),
      oauth_metadata = (\<lambda>t. if t = ''tok_1'' then Inr ex_metadata else Inl raw),
      lists_get = (\<lambda>t d. if t = ''tok_1'' then
                             Inr \<lparr>lists = [\<lparr>list_id = ''l1'', list_name = ''News'',
                                            stats_member_count = 3\<rparr>], total_items = 1\<rparr>
                           else Inl raw),
      campaigns_post = (\<lambda>t d l s f r. if t = ''tok_1'' then Inr ex_campaign else Inl raw),
      campaign_content_put = (\<lambda>t d c h. if h = ''<bad>'' then Inl raw else Inr ()),
      campaign_send_post = (\<lambda>t d c. Inr ())\<rparr>"

text \<open>The same provider, except that it refuses every metadata call.\<close>

definition ex_provider_no_metadata :: "string \<Rightarrow> Provider" where
  "ex_provider_no_metadata raw = (ex_provider raw)\<lparr>oauth_metadata := (\<lambda>t. Inl raw)\<rparr>"

definition ex_session :: UserSession where
  "ex_session = \<lparr>accessToken = ''tok_1'', metadata = ex_metadata, connectedAt = 8\<rparr>"

definition ex_world :: World where
  "ex_world = \<lparr>userSessions = Map.empty, outbound = [], console = []\<rparr>"

definition ex_connected :: World where
  "ex_connected = \<lparr>userSessions = [''s1'' \<mapsto> ex_session], outbound = [], console = []\<rparr>"

definition ex_runtime :: Runtime where
  "ex_runtime = \<lparr>date_now = 7, math_random = ''0.k3'', new_date = 8\<rparr>"

definition ex_env :: ProcessEnv where
  "ex_env = \<lparr>FRONTEND_URL = None, PORT = None\<rparr>"

text \<open>A request from 10.0.0.1 with the given session header and body.\<close>

definition ex_request :: "string option \<Rightarrow> 'b \<Rightarrow> (unit, 'b) Request" where
  "ex_request h b = \<lparr>ip = Some ''10.0.0.1'', x_session_id = h, query = (), body = b\<rparr>"

definition ex_callback :: "QueryValue option \<Rightarrow> (CallbackQuery, unit) Request" where
  "ex_callback c =
     \<lparr>ip = Some ''10.0.0.1'', x_session_id = None,
      query = \<lparr>q_code = c, q_state = None, q_error = None, q_error_description = None\<rparr>,
      body = ()\<rparr>"

definition ex_token_request :: "string option \<Rightarrow> (unit, OAuthTokenRequest) Request" where
  "ex_token_request h = ex_request h \<lparr>code = Some ''abc123'', state = None\<rparr>"

definition ex_draft :: "string \<Rightarrow> string \<Rightarrow> CampaignRequest" where
  "ex_draft l h = \<lparr>listId = Some l, subject = Some ''Hi'', content = Some h,
                   fromName = Some ''Acme'', replyTo = Some ''a@acme.com''\<rparr>"

section \<open>Evaluation rules for the JavaScript helpers\<close>

declare show_nat.simps [simp del]

lemma truthy_Some: "truthy (Some s) = (s \<noteq> [])"
  by (simp add: truthy_def)

lemma str_val_Some: "str_val (Some s) = s"
  by (simp add: str_val_def)

lemma js_or_Some: "js_or (Some s) b = (if s = [] then b else s)"
  by (simp add: js_or_def)

section \<open>Session Store\<close>

text \<open>
  C7. Removing a session is idempotent: removing the same identifier a second time
  leaves the world as the first removal left it, removing an identifier that has no
  record leaves the world as it was, and the removal has no error result. The same
  holds for the disconnect endpoint, which answers the same both times.
\<close>

theorem removeUserSession_idempotent:
  "removeUserSession svc sid (removeUserSession svc' sid w) = removeUserSession svc sid w
   \<and> (userSessions w sid = None \<longrightarrow> removeUserSession svc sid w = w)
   \<and> disconnect_handler rt svc req (snd (disconnect_handler rt svc' req w))
       = disconnect_handler rt svc req w"
  by (simp add: removeUserSession_def disconnect_handler_def Let_def fun_upd_idem)

theorem removeUserSession_idempotent_witness:
  "userSessions ex_connected ''s2'' = None
   \<and> removeUserSession ex_service ''s2'' ex_connected = ex_connected
   \<and> removeUserSession ex_service ''s1'' (removeUserSession ex_service ''s1'' ex_connected)
       = removeUserSession ex_service ''s1'' ex_connected
   \<and> userSessions (removeUserSession ex_service ''s1'' ex_connected) ''s1'' = None"
  using removeUserSession_idempotent [of ex_service "''s2''" ex_service ex_connected]
        removeUserSession_idempotent [of ex_service "''s1''" ex_service ex_connected]
  by (simp add: ex_connected_def removeUserSession_def)

section \<open>Campaign send\<close>

text \<open>
  C3. A send with five non-empty draft fields, for a request whose session identifier
  has a record, when the provider accepts the three calls: the handler makes exactly
  the calls createCampaign, setCampaignContent, sendCampaign, in this order and with
  the identifier that createCampaign returned, and answers 200 with the success
  envelope holding that identifier, the status \<open>sent\<close> and the message
  \<open>Campaign sent successfully\<close>. The body is written out as the JSON the caller
  receives.
\<close>

theorem campaign_send_success:
  assumes draft: "body req = \<lparr>listId = Some l, subject = Some s, content = Some h,
                              fromName = Some f, replyTo = Some r\<rparr>"
    and nonempty: "l \<noteq> []" "s \<noteq> []" "h \<noteq> []" "f \<noteq> []" "r \<noteq> []"
    and session: "getUserSession svc (getSessionId rt req) w = Some session"
    and created: "campaigns_post P (accessToken session) (dc (metadata session)) l s f r = Inr campaign"
    and content_set: "campaign_content_put P (accessToken session) (dc (metadata session))
                        (campaign_id campaign) h = Inr ()"
    and sent: "campaign_send_post P (accessToken session) (dc (metadata session))
                 (campaign_id campaign) = Inr ()"
  shows "campaign_send_handler rt P svc req w =
           (Json 200 []
              (JObj [(''success'', JBool True),
                     (''data'', JObj [(''campaignId'', JStr (campaign_id campaign)),
                                      (''status'', JStr ''sent''),
                                      (''message'', JStr ''Campaign sent successfully'')])]),
            w\<lparr>outbound := outbound w @
                 [CreateCampaign (accessToken session) (dc (metadata session)) l s f r,
                  SetCampaignContent (accessToken session) (dc (metadata session))
                    (campaign_id campaign) h,
                  SendCampaign (accessToken session) (dc (metadata session))
                    (campaign_id campaign)]\<rparr>)"
  using assms
  by (simp add: campaign_send_handler_def Let_def truthy_Some str_val_Some
      createCampaign_def setCampaignContent_def sendCampaign_def api_success_def)

theorem campaign_send_success_witness:
  "campaign_send_handler ex_runtime (ex_provider ''boom'') ex_service
      (ex_request (Some ''s1'') (ex_draft ''l1'' ''<h1>'')) ex_connected =
     (Json 200 []
        (JObj [(''success'', JBool True),
               (''data'', JObj [(''campaignId'', JStr ''c42''),
                                (''status'', JStr ''sent''),
                                (''message'', JStr ''Campaign sent successfully'')])]),
      ex_connected\<lparr>outbound :=
         [CreateCampaign ''tok_1'' ''us1'' ''l1'' ''Hi'' ''Acme'' ''a@acme.com'',
          SetCampaignContent ''tok_1'' ''us1'' ''c42'' ''<h1>'',
          SendCampaign ''tok_1'' ''us1'' ''c42'']\<rparr>)"
  using campaign_send_success [of "ex_request (Some ''s1'') (ex_draft ''l1'' ''<h1>'')"
      "''l1''" "''Hi''" "''<h1>''" "''Acme''" "''a@acme.com''" ex_service ex_runtime
      ex_connected ex_session "ex_provider ''boom''" ex_campaign]
  by (simp add: ex_request_def ex_draft_def getUserSession_def getSessionId_def js_or_def
      ex_connected_def ex_session_def ex_metadata_def ex_provider_def ex_campaign_def)

text \<open>
  C4. When createCampaign succeeds and setCampaignContent fails, the handler answers
  500 with the failure envelope, and the calls of the run are exactly one create and
  one content call: sendCampaign is not called and nothing is called to delete the
  campaign. The raw diagnostic goes to the console only.
\<close>

theorem campaign_content_failure:
  assumes draft: "body req = \<lparr>listId = Some l, subject = Some s, content = Some h,
                              fromName = Some f, replyTo = Some r\<rparr>"
    and nonempty: "l \<noteq> []" "s \<noteq> []" "h \<noteq> []" "f \<noteq> []" "r \<noteq> []"
    and session: "getUserSession svc (getSessionId rt req) w = Some session"
    and created: "campaigns_post P (accessToken session) (dc (metadata session)) l s f r = Inr campaign"
    and content_failed: "campaign_content_put P (accessToken session) (dc (metadata session))
                        (campaign_id campaign) h = Inl raw"
  shows "campaign_send_handler rt P svc req w =
           (Json 500 [] (api_failure ''Failed to set campaign content''),
            w\<lparr>outbound := outbound w @
                 [CreateCampaign (accessToken session) (dc (metadata session)) l s f r,
                  SetCampaignContent (accessToken session) (dc (metadata session))
                    (campaign_id campaign) h],
               console := console w @
                 [(''Campaign content error:'', raw),
                  (''Campaign send error:'', ''Failed to set campaign content'')]\<rparr>)"
  using assms
  by (simp add: campaign_send_handler_def Let_def truthy_Some str_val_Some
      createCampaign_def setCampaignContent_def catch_500_def js_or_Some)

theorem campaign_content_failure_witness:
  "campaign_send_handler ex_runtime (ex_provider ''boom'') ex_service
      (ex_request (Some ''s1'') (ex_draft ''l1'' ''<bad>'')) ex_connected =
     (Json 500 [] (api_failure ''Failed to set campaign content''),
      ex_connected\<lparr>outbound :=
         [CreateCampaign ''tok_1'' ''us1'' ''l1'' ''Hi'' ''Acme'' ''a@acme.com'',
          SetCampaignContent ''tok_1'' ''us1'' ''c42'' ''<bad>''],
         console := [(''Campaign content error:'', ''boom''),
                  (''Campaign send error:'', ''Failed to set campaign content'')]\<rparr>)"
  using campaign_content_failure [of "ex_request (Some ''s1'') (ex_draft ''l1'' ''<bad>'')"
      "''l1''" "''Hi''" "''<bad>''" "''Acme''" "''a@acme.com''" ex_service ex_runtime
      ex_connected ex_session "ex_provider ''boom''" ex_campaign "''boom''"]
  by (simp add: ex_request_def ex_draft_def getUserSession_def getSessionId_def js_or_def
      ex_connected_def ex_session_def ex_metadata_def ex_provider_def ex_campaign_def)

text \<open>
  C5. When one of the five draft fields is missing or empty, the handler answers 400
  with the failure envelope and leaves the world as it was: no outbound call is made.
\<close>

theorem campaign_draft_rejected:
  assumes "\<not> truthy (listId (body req)) \<or> \<not> truthy (subject (body req))
           \<or> \<not> truthy (content (body req)) \<or> \<not> truthy (fromName (body req))
           \<or> \<not> truthy (replyTo (body req))"
  shows "campaign_send_handler rt P svc req w =
           (Json 400 []
              (api_failure ''Missing required fields: listId, subject, content, fromName, replyTo''),
            w)"
  using assms by (simp add: campaign_send_handler_def Let_def)

theorem campaign_draft_rejected_witness:
  "\<not> truthy (listId (body (ex_request (Some ''s1'') (ex_draft '''' ''x''))))
   \<and> campaign_send_handler ex_runtime (ex_provider ''boom'') ex_service
        (ex_request (Some ''s1'') (ex_draft '''' ''x'')) ex_connected =
      (Json 400 []
         (api_failure ''Missing required fields: listId, subject, content, fromName, replyTo''),
       ex_connected)
   \<and> campaign_send_handler ex_runtime (ex_provider ''boom'') ex_service
        (ex_request (Some ''s1'') ((ex_draft ''l1'' ''x'')\<lparr>replyTo := None\<rparr>)) ex_connected =
      (Json 400 []
         (api_failure ''Missing required fields: listId, subject, content, fromName, replyTo''),
       ex_connected)"
  using campaign_draft_rejected [of "ex_request (Some ''s1'') (ex_draft '''' ''x'')"
      ex_runtime "ex_provider ''boom''" ex_service ex_connected]
    campaign_draft_rejected [of "ex_request (Some ''s1'') ((ex_draft ''l1'' ''x'')\<lparr>replyTo := None\<rparr>)"
      ex_runtime "ex_provider ''boom''" ex_service ex_connected]
  by (simp add: ex_request_def ex_draft_def truthy_def)

section \<open>Gated endpoints without a session\<close>

text \<open>
  C6. For a request whose session identifier has no record in the store, \<open>/status\<close>
  answers 200 with the success envelope and \<open>isConnected: false\<close>, and \<open>/lists\<close>
  answers 401 with the failure envelope, without any outbound call. The answers are
  the same when the identifier has no record because \<open>/disconnect\<close> has just removed
  it from a store that held one. Both bodies are written out as the JSON the caller
  receives.
\<close>

theorem session_not_found_uniform:
  assumes never: "userSessions w1 (getSessionId rt req) = None"
    and same_id: "getSessionId rt' req' = getSessionId rt req"
  shows "status_handler rt svc req w1 =
           (Json 200 [] (JObj [(''success'', JBool True), (''data'', JObj [(''isConnected'', JBool False)])]), w1)
         \<and> lists_handler rt P svc req w1 =
           (Json 401 [] (JObj [(''success'', JBool False), (''message'', JStr ''Not connected to MailChimp''), (''data'', JNull)]), w1)
         \<and> fst (status_handler rt svc req (snd (disconnect_handler rt' svc' req' w2)))
             = fst (status_handler rt svc req w1)
         \<and> fst (lists_handler rt P svc req (snd (disconnect_handler rt' svc' req' w2)))
             = fst (lists_handler rt P svc req w1)
         \<and> outbound (snd (lists_handler rt P svc req (snd (disconnect_handler rt' svc' req' w2))))
             = outbound w2"
  using assms
  by (simp add: status_handler_def lists_handler_def disconnect_handler_def Let_def
      getUserSession_def removeUserSession_def api_success_def api_failure_def)

theorem session_not_found_uniform_witness:
  "userSessions ex_world (getSessionId ex_runtime (ex_request (Some ''s1'') ())) = None
   \<and> userSessions ex_connected ''s1'' = Some ex_session
   \<and> status_handler ex_runtime ex_service (ex_request (Some ''s1'') ()) ex_world =
       (Json 200 [] (JObj [(''success'', JBool True), (''data'', JObj [(''isConnected'', JBool False)])]), ex_world)
   \<and> lists_handler ex_runtime (ex_provider ''boom'') ex_service (ex_request (Some ''s1'') ()) ex_world =
       (Json 401 [] (JObj [(''success'', JBool False), (''message'', JStr ''Not connected to MailChimp''), (''data'', JNull)]), ex_world)
   \<and> fst (status_handler ex_runtime ex_service (ex_request (Some ''s1'') ())
         (snd (disconnect_handler ex_runtime ex_service (ex_request (Some ''s1'') ()) ex_connected)))
       = Json 200 [] (JObj [(''success'', JBool True), (''data'', JObj [(''isConnected'', JBool False)])])
   \<and> fst (lists_handler ex_runtime (ex_provider ''boom'') ex_service (ex_request (Some ''s1'') ())
         (snd (disconnect_handler ex_runtime ex_service (ex_request (Some ''s1'') ()) ex_connected)))
       = Json 401 [] (JObj [(''success'', JBool False), (''message'', JStr ''Not connected to MailChimp''), (''data'', JNull)])"
  using session_not_found_uniform [of ex_world ex_runtime "ex_request (Some ''s1'') ()"
      ex_runtime "ex_request (Some ''s1'') ()" ex_service "ex_provider ''boom''" ex_service
      ex_connected]
  by (simp add: ex_world_def ex_connected_def)

section \<open>One session map for every service instance\<close>

lemma generateSessionId_nonempty: "generateSessionId rt req \<noteq> []"
  by (simp add: generateSessionId_def)

lemma getSessionId_nonempty: "getSessionId rt req \<noteq> []"
  by (simp add: getSessionId_def js_or_def generateSessionId_nonempty split: option.splits)

lemma getSessionId_header: "x_session_id req = Some h \<Longrightarrow> h \<noteq> [] \<Longrightarrow> getSessionId rt req = h"
  by (simp add: getSessionId_def js_or_def)

lemma callback_established:
  assumes "oauth_callback_handler env rt P svc req w =
             (Redirect u [(''success'', ''true''), (''session_id'', sid),
                          (''account_name'', an), (''user_email'', ue)], w1)"
  shows "sid \<noteq> [] \<and> (\<exists>s. userSessions w1 sid = Some s \<and> accountname (metadata s) = an
            \<and> email (login (metadata s)) = ue)"
  using assms
  by (auto simp: oauth_callback_handler_def Let_def callback_catch_def storeUserSession_def
      generateSessionId_nonempty
      split: if_splits option.splits QueryValue.splits prod.splits sum.splits)

lemma token_established:
  assumes "oauth_token_handler rt P svc req w =
             (Json 200 [(''X-Session-Id'', sid)]
                (api_success (JObj [(''accountName'', JStr an), (''userEmail'', JStr ue),
                                    (''isConnected'', JBool True)])), w1)"
  shows "sid \<noteq> [] \<and> (\<exists>s. userSessions w1 sid = Some s \<and> accountname (metadata s) = an
            \<and> email (login (metadata s)) = ue)"
  using assms
  by (auto simp: oauth_token_handler_def Let_def catch_500_def storeUserSession_def
      getSessionId_nonempty api_failure_def api_success_def
      split: if_splits option.splits prod.splits sum.splits)


text \<open>
  C10. The session map belongs to the module, not to a service instance. A session
  established by the redirect callback or by \<open>/oauth/token\<close> on one instance, and
  announced to the client as \<open>sid\<close>, is found under \<open>sid\<close> by every instance: the
  router's \<open>/status\<close> reports it connected with the account's name and email,
  \<open>/lists\<close> does not answer unauthorized, and after the router's \<open>/disconnect\<close> no
  instance finds it any more.
\<close>

theorem sessions_shared_between_instances:
  assumes est:
      "oauth_callback_handler env rt P svcA req w =
         (Redirect u [(''success'', ''true''), (''session_id'', sid),
                      (''account_name'', an), (''user_email'', ue)], w1)
       \<or> oauth_token_handler rt P svcA treq w =
         (Json 200 [(''X-Session-Id'', sid)]
            (api_success (JObj [(''accountName'', JStr an), (''userEmail'', JStr ue),
                                (''isConnected'', JBool True)])), w1)"
    and hdr: "x_session_id greq = Some sid"
  shows "status_handler rt' svcB greq w1 =
           (Json 200 []
              (api_success (JObj [(''isConnected'', JBool True), (''accountName'', JStr an),
                                  (''userEmail'', JStr ue)])), w1)
         \<and> getUserSession svcB sid w1 = getUserSession svcA sid w1
         \<and> getUserSession svcB sid w1 \<noteq> None
         \<and> fst (lists_handler rt' P' svcB greq w1)
             \<noteq> Json 401 [] (api_failure ''Not connected to MailChimp'')
         \<and> getUserSession svcA sid (snd (disconnect_handler rt' svcB greq w1)) = None
         \<and> fst (status_handler rt' svcA greq (snd (disconnect_handler rt' svcB greq w1)))
             = Json 200 [] (api_success (JObj [(''isConnected'', JBool False)]))"
proof -
  from est have "sid \<noteq> [] \<and> (\<exists>s. userSessions w1 sid = Some s \<and> accountname (metadata s) = an
            \<and> email (login (metadata s)) = ue)"
  proof
    assume "oauth_callback_handler env rt P svcA req w =
         (Redirect u [(''success'', ''true''), (''session_id'', sid),
                      (''account_name'', an), (''user_email'', ue)], w1)"
    then show ?thesis by (rule callback_established)
  next
    assume "oauth_token_handler rt P svcA treq w =
         (Json 200 [(''X-Session-Id'', sid)]
            (api_success (JObj [(''accountName'', JStr an), (''userEmail'', JStr ue),
                                (''isConnected'', JBool True)])), w1)"
    then show ?thesis by (rule token_established)
  qed
  then obtain s where sid: "sid \<noteq> []" and s: "userSessions w1 sid = Some s"
    and an: "accountname (metadata s) = an" and ue: "email (login (metadata s)) = ue"
    by blast
  from hdr sid have id: "getSessionId rt' greq = sid"
    by (rule getSessionId_header)
  show ?thesis
    using s an ue id
    by (simp add: status_handler_def lists_handler_def disconnect_handler_def Let_def
        getUserSession_def removeUserSession_def getLists_def catch_500_def
        api_failure_def api_success_def split: sum.splits)
qed

theorem sessions_shared_between_instances_witness:
  "status_handler ex_runtime ex_service (ex_request (Some ''10.0.0.1-7-0.k3'') ())
       (snd (oauth_callback_handler ex_env ex_runtime (ex_provider ''boom'') ex_service
               (ex_callback (Some (QStr ''abc123''))) ex_world)) =
     (Json 200 []
        (api_success (JObj [(''isConnected'', JBool True), (''accountName'', JStr ''Acme''),
                            (''userEmail'', JStr ''a@acme.com'')])),
      snd (oauth_callback_handler ex_env ex_runtime (ex_provider ''boom'') ex_service
               (ex_callback (Some (QStr ''abc123''))) ex_world))
   \<and> fst (status_handler ex_runtime ex_service (ex_request (Some ''10.0.0.1-7-0.k3'') ())
       (snd (disconnect_handler ex_runtime ex_service (ex_request (Some ''10.0.0.1-7-0.k3'') ())
         (snd (oauth_callback_handler ex_env ex_runtime (ex_provider ''boom'') ex_service
               (ex_callback (Some (QStr ''abc123''))) ex_world))))) =
     Json 200 [] (api_success (JObj [(''isConnected'', JBool False)]))
   \<and> fst (status_handler ex_runtime ex_service (ex_request (Some ''10.0.0.1-7-0.k3'') ())
       (snd (oauth_token_handler ex_runtime (ex_provider ''boom'') ex_service
               (ex_request None \<lparr>code = Some ''abc123'', state = None\<rparr>) ex_world))) =
     Json 200 []
        (api_success (JObj [(''isConnected'', JBool True), (''accountName'', JStr ''Acme''),
                            (''userEmail'', JStr ''a@acme.com'')]))"
proof -
  have run2: "oauth_token_handler ex_runtime (ex_provider ''boom'') ex_service
               (ex_request None \<lparr>code = Some ''abc123'', state = None\<rparr>) ex_world =
         (Json 200 [(''X-Session-Id'', ''10.0.0.1-7-0.k3'')]
            (api_success (JObj [(''accountName'', JStr ''Acme''),
                                (''userEmail'', JStr ''a@acme.com''),
                                (''isConnected'', JBool True)])),
          snd (oauth_token_handler ex_runtime (ex_provider ''boom'') ex_service
               (ex_request None \<lparr>code = Some ''abc123'', state = None\<rparr>) ex_world))"
    by (simp add: oauth_token_handler_def Let_def ex_request_def truthy_def str_val_def
        exchangeCodeForToken_def getUserMetadata_def ex_provider_def ex_token_def
        ex_metadata_def getSessionId_def generateSessionId_def show_ip_def show_nat.simps
        ex_runtime_def js_or_def)
  have run: "oauth_callback_handler ex_env ex_runtime (ex_provider ''boom'') ex_service
               (ex_callback (Some (QStr ''abc123''))) ex_world =
         (Redirect ''http://localhost:8090/oauth-verify/mailchimp''
            [(''success'', ''true''), (''session_id'', ''10.0.0.1-7-0.k3''),
             (''account_name'', ''Acme''), (''user_email'', ''a@acme.com'')],
          snd (oauth_callback_handler ex_env ex_runtime (ex_provider ''boom'') ex_service
               (ex_callback (Some (QStr ''abc123''))) ex_world))"
    by (simp add: oauth_callback_handler_def Let_def ex_callback_def q_truthy_def
        exchangeCodeForToken_def getUserMetadata_def ex_provider_def ex_token_def
        ex_metadata_def generateSessionId_def show_ip_def show_nat.simps ex_runtime_def
        frontendCallbackUrl_def ex_env_def js_or_def)
  have hdr: "x_session_id (ex_request (Some ''10.0.0.1-7-0.k3'') ()) = Some ''10.0.0.1-7-0.k3''"
    by (simp add: ex_request_def)
  show ?thesis
    using sessions_shared_between_instances [OF disjI1 [OF run] hdr, of ex_runtime ex_service]
      sessions_shared_between_instances [OF disjI2 [OF run2] hdr, of ex_runtime ex_service]
    by simp
qed

section \<open>The OAuth flow and the session map\<close>

lemma callback_store:
  "userSessions (snd (oauth_callback_handler env rt P svc req w)) =
     flow_store rt (generateSessionId rt req)
       (exchanged P (run_calls w (snd (oauth_callback_handler env rt P svc req w))))
       (fetched P (run_calls w (snd (oauth_callback_handler env rt P svc req w))))
       (userSessions w)"
  by (simp add: oauth_callback_handler_def Let_def callback_catch_def storeUserSession_def
      exchangeCodeForToken_def getUserMetadata_def run_calls_def flow_store_def
      split: option.splits QueryValue.splits sum.splits)

lemma token_store:
  "userSessions (snd (oauth_token_handler rt P svc req w)) =
     flow_store rt (getSessionId rt req)
       (exchanged P (run_calls w (snd (oauth_token_handler rt P svc req w))))
       (fetched P (run_calls w (snd (oauth_token_handler rt P svc req w))))
       (userSessions w)"
  by (simp add: oauth_token_handler_def Let_def catch_500_def storeUserSession_def
      exchangeCodeForToken_def getUserMetadata_def run_calls_def flow_store_def
      split: option.splits sum.splits)


text \<open>
  C2. In every run of either OAuth entry point the session map ends as \<open>flow_store\<close>
  says: it gains the record (the exchanged access token, the fetched metadata) when
  the run's token exchange and its metadata fetch both succeeded, and it is the map the
  run started with in every other case. When the exchange succeeded and the metadata
  fetch did not, the run answers with the handler's error for the metadata step; with
  the session map as it was, the token is kept nowhere.
\<close>

theorem oauth_session_written_iff:
  "userSessions (snd (oauth_callback_handler env rt P svc req w)) =
     flow_store rt (generateSessionId rt req)
       (exchanged P (run_calls w (snd (oauth_callback_handler env rt P svc req w))))
       (fetched P (run_calls w (snd (oauth_callback_handler env rt P svc req w))))
       (userSessions w)
   \<and> userSessions (snd (oauth_token_handler rt P svc treq w)) =
     flow_store rt (getSessionId rt treq)
       (exchanged P (run_calls w (snd (oauth_token_handler rt P svc treq w))))
       (fetched P (run_calls w (snd (oauth_token_handler rt P svc treq w))))
       (userSessions w)
   \<and> (exchanged P (run_calls w (snd (oauth_callback_handler env rt P svc req w))) \<noteq> None
        \<and> fetched P (run_calls w (snd (oauth_callback_handler env rt P svc req w))) = None
      \<longrightarrow> fst (oauth_callback_handler env rt P svc req w) =
            Redirect (frontendCallbackUrl env)
               [(''error'', ''processing_failed''),
                (''error_description'', ''Failed to fetch user metadata'')])
   \<and> (exchanged P (run_calls w (snd (oauth_token_handler rt P svc treq w))) \<noteq> None
        \<and> fetched P (run_calls w (snd (oauth_token_handler rt P svc treq w))) = None
      \<longrightarrow> fst (oauth_token_handler rt P svc treq w) =
            Json 500 [] (api_failure ''Failed to fetch user metadata''))"
proof (intro conjI)
  show "userSessions (snd (oauth_callback_handler env rt P svc req w)) =
     flow_store rt (generateSessionId rt req)
       (exchanged P (run_calls w (snd (oauth_callback_handler env rt P svc req w))))
       (fetched P (run_calls w (snd (oauth_callback_handler env rt P svc req w))))
       (userSessions w)"
    by (rule callback_store)
  show "userSessions (snd (oauth_token_handler rt P svc treq w)) =
     flow_store rt (getSessionId rt treq)
       (exchanged P (run_calls w (snd (oauth_token_handler rt P svc treq w))))
       (fetched P (run_calls w (snd (oauth_token_handler rt P svc treq w))))
       (userSessions w)"
    by (rule token_store)
  show "exchanged P (run_calls w (snd (oauth_callback_handler env rt P svc req w))) \<noteq> None
        \<and> fetched P (run_calls w (snd (oauth_callback_handler env rt P svc req w))) = None
      \<longrightarrow> fst (oauth_callback_handler env rt P svc req w) =
            Redirect (frontendCallbackUrl env)
               [(''error'', ''processing_failed''),
                (''error_description'', ''Failed to fetch user metadata'')]"
    by (simp add: oauth_callback_handler_def Let_def callback_catch_def storeUserSession_def
      exchangeCodeForToken_def getUserMetadata_def run_calls_def js_or_Some
      split: option.splits QueryValue.splits sum.splits)
  show "exchanged P (run_calls w (snd (oauth_token_handler rt P svc treq w))) \<noteq> None
        \<and> fetched P (run_calls w (snd (oauth_token_handler rt P svc treq w))) = None
      \<longrightarrow> fst (oauth_token_handler rt P svc treq w) =
            Json 500 [] (api_failure ''Failed to fetch user metadata'')"
    by (simp add: oauth_token_handler_def Let_def catch_500_def storeUserSession_def
      exchangeCodeForToken_def getUserMetadata_def run_calls_def js_or_Some
      split: option.splits sum.splits)
qed

theorem oauth_session_written_iff_witness:
  "exchanged (ex_provider_no_metadata ''boom'')
      (run_calls ex_world (snd (oauth_token_handler ex_runtime (ex_provider_no_metadata ''boom'')
         ex_service (ex_token_request None) ex_world))) = Some ex_token
   \<and> fetched (ex_provider_no_metadata ''boom'')
      (run_calls ex_world (snd (oauth_token_handler ex_runtime (ex_provider_no_metadata ''boom'')
         ex_service (ex_token_request None) ex_world))) = None
   \<and> userSessions (snd (oauth_token_handler ex_runtime (ex_provider_no_metadata ''boom'')
         ex_service (ex_token_request None) ex_world)) = Map.empty
   \<and> fst (oauth_token_handler ex_runtime (ex_provider_no_metadata ''boom'')
         ex_service (ex_token_request None) ex_world)
       = Json 500 [] (api_failure ''Failed to fetch user metadata'')
   \<and> fst (oauth_callback_handler ex_env ex_runtime (ex_provider_no_metadata ''boom'')
         ex_service (ex_callback (Some (QStr ''abc123''))) ex_world)
       = Redirect ''http://localhost:8090/oauth-verify/mailchimp''
           [(''error'', ''processing_failed''),
            (''error_description'', ''Failed to fetch user metadata'')]
   \<and> userSessions (snd (oauth_callback_handler ex_env ex_runtime (ex_provider_no_metadata ''boom'')
         ex_service (ex_callback (Some (QStr ''abc123''))) ex_world)) = Map.empty
   \<and> userSessions (snd (oauth_token_handler ex_runtime (ex_provider ''boom'')
         ex_service (ex_token_request None) ex_world)) = [''10.0.0.1-7-0.k3'' \<mapsto> ex_session]
   \<and> userSessions (snd (oauth_callback_handler ex_env ex_runtime (ex_provider ''boom'')
         ex_service (ex_callback (Some (QStr ''abc123''))) ex_world))
       = [''10.0.0.1-7-0.k3'' \<mapsto> ex_session]"
proof -
  let ?Pn = "ex_provider_no_metadata ''boom''"
  let ?Pk = "ex_provider ''boom''"
  let ?cb = "ex_callback (Some (QStr ''abc123''))"
  have calls_t: "run_calls ex_world (snd (oauth_token_handler ex_runtime ?Pn ex_service
         (ex_token_request None) ex_world))
       = [TokenExchange ex_config ''abc123'', MetadataFetch ''tok_1'']"
    by (simp add: oauth_token_handler_def Let_def ex_token_request_def ex_request_def truthy_def
        str_val_def exchangeCodeForToken_def getUserMetadata_def ex_provider_no_metadata_def
        ex_provider_def ex_token_def catch_500_def run_calls_def ex_world_def ex_service_def)
  have calls_c: "run_calls ex_world (snd (oauth_callback_handler ex_env ex_runtime ?Pn
         ex_service ?cb ex_world))
       = [TokenExchange ex_config ''abc123'', MetadataFetch ''tok_1'']"
    by (simp add: oauth_callback_handler_def Let_def ex_callback_def q_truthy_def
        exchangeCodeForToken_def getUserMetadata_def ex_provider_no_metadata_def
        ex_provider_def ex_token_def callback_catch_def run_calls_def ex_world_def ex_service_def)
  have calls_ok_t: "run_calls ex_world (snd (oauth_token_handler ex_runtime ?Pk ex_service
         (ex_token_request None) ex_world))
       = [TokenExchange ex_config ''abc123'', MetadataFetch ''tok_1'']"
    by (simp add: oauth_token_handler_def Let_def ex_token_request_def ex_request_def truthy_def
        str_val_def exchangeCodeForToken_def getUserMetadata_def storeUserSession_def
        ex_provider_def ex_token_def catch_500_def run_calls_def ex_world_def ex_service_def)
  have calls_ok_c: "run_calls ex_world (snd (oauth_callback_handler ex_env ex_runtime ?Pk
         ex_service ?cb ex_world))
       = [TokenExchange ex_config ''abc123'', MetadataFetch ''tok_1'']"
    by (simp add: oauth_callback_handler_def Let_def ex_callback_def q_truthy_def
        exchangeCodeForToken_def getUserMetadata_def storeUserSession_def
        ex_provider_def ex_token_def callback_catch_def run_calls_def ex_world_def ex_service_def)
  have ex_n: "exchanged ?Pn [TokenExchange ex_config ''abc123'', MetadataFetch ''tok_1''] = Some ex_token"
    and fe_n: "fetched ?Pn [TokenExchange ex_config ''abc123'', MetadataFetch ''tok_1''] = None"
    by (simp_all add: ex_provider_no_metadata_def ex_provider_def)
  have ex_k: "exchanged ?Pk [TokenExchange ex_config ''abc123'', MetadataFetch ''tok_1''] = Some ex_token"
    and fe_k: "fetched ?Pk [TokenExchange ex_config ''abc123'', MetadataFetch ''tok_1''] = Some ex_metadata"
    by (simp_all add: ex_provider_def)
  have gen_t: "getSessionId ex_runtime (ex_token_request None) = ''10.0.0.1-7-0.k3''"
    by (simp add: getSessionId_def js_or_def generateSessionId_def ex_token_request_def
        ex_request_def show_ip_def show_nat.simps ex_runtime_def)
  have gen_c: "generateSessionId ex_runtime ?cb = ''10.0.0.1-7-0.k3''"
    by (simp add: generateSessionId_def ex_callback_def show_ip_def show_nat.simps ex_runtime_def)
  have rec: "\<lparr>accessToken = access_token ex_token, metadata = ex_metadata,
               connectedAt = new_date ex_runtime\<rparr> = ex_session"
    by (simp add: ex_session_def ex_token_def ex_runtime_def)
  have env: "frontendCallbackUrl ex_env = ''http://localhost:8090/oauth-verify/mailchimp''"
    by (simp add: frontendCallbackUrl_def ex_env_def js_or_def)
  have empty: "userSessions ex_world = Map.empty"
    by (simp add: ex_world_def)
  show ?thesis
    using oauth_session_written_iff [of ex_env ex_runtime ?Pn ex_service ?cb ex_world
        "ex_token_request None"]
      oauth_session_written_iff [of ex_env ex_runtime ?Pk ex_service ?cb ex_world
        "ex_token_request None"]
    by (simp add: calls_t calls_c calls_ok_t calls_ok_c ex_n fe_n ex_k fe_k gen_t gen_c
        flow_store_def rec env empty del: exchanged.simps fetched.simps)
qed

section \<open>Where the session identifier comes from\<close>

text \<open>
  C1. The identifier under which \<open>/oauth/token\<close> stores the new record: when the
  request carries a non-empty \<open>X-Session-Id\<close> header and the flow succeeds, the record
  is stored under the header's value, which is also sent back as the response header;
  \<open>generateSessionId\<close> is not consulted. The redirect callback, in contrast, calls
  \<open>generateSessionId\<close> and never reads the header.
\<close>

theorem oauth_token_session_id_from_header:
  assumes header: "x_session_id treq = Some h" "h \<noteq> []"
    and code_given: "code (body treq) = Some c" "c \<noteq> []"
    and exchange_ok: "oauth_token P (config svc) c = Inr tr"
    and metadata_ok: "oauth_metadata P (access_token tr) = Inr md"
  shows "oauth_token_handler rt P svc treq w =
           (Json 200 [(''X-Session-Id'', h)]
              (api_success (JObj [(''accountName'', JStr (accountname md)),
                                  (''userEmail'', JStr (email (login md))),
                                  (''isConnected'', JBool True)])),
            w\<lparr>userSessions := (userSessions w)(h \<mapsto>
                  \<lparr>accessToken = access_token tr, metadata = md, connectedAt = new_date rt\<rparr>),
               outbound := outbound w @
                  [TokenExchange (config svc) c, MetadataFetch (access_token tr)]\<rparr>)"
  using assms
  by (simp add: oauth_token_handler_def Let_def truthy_Some str_val_Some
      exchangeCodeForToken_def getUserMetadata_def storeUserSession_def getSessionId_header)

theorem oauth_token_session_id_from_header_witness:
  "x_session_id (ex_token_request (Some ''evil'')) = Some ''evil''
   \<and> generateSessionId ex_runtime (ex_token_request (Some ''evil'')) = ''10.0.0.1-7-0.k3''
   \<and> fst (oauth_token_handler ex_runtime (ex_provider ''boom'') ex_service
         (ex_token_request (Some ''evil'')) ex_world)
       = Json 200 [(''X-Session-Id'', ''evil'')]
           (api_success (JObj [(''accountName'', JStr ''Acme''),
                               (''userEmail'', JStr ''a@acme.com''),
                               (''isConnected'', JBool True)]))
   \<and> userSessions (snd (oauth_token_handler ex_runtime (ex_provider ''boom'') ex_service
         (ex_token_request (Some ''evil'')) ex_world)) = [''evil'' \<mapsto> ex_session]"
proof -
  have hdr: "x_session_id (ex_token_request (Some ''evil'')) = Some ''evil''"
    and cd: "code (body (ex_token_request (Some ''evil''))) = Some ''abc123''"
    by (simp_all add: ex_token_request_def ex_request_def)
  have ex: "oauth_token (ex_provider ''boom'') (config ex_service) ''abc123'' = Inr ex_token"
    by (simp add: ex_provider_def)
  have me: "oauth_metadata (ex_provider ''boom'') (access_token ex_token) = Inr ex_metadata"
    by (simp add: ex_provider_def ex_token_def)
  have gen: "generateSessionId ex_runtime (ex_token_request (Some ''evil'')) = ''10.0.0.1-7-0.k3''"
    by (simp add: generateSessionId_def ex_token_request_def ex_request_def show_ip_def
        show_nat.simps ex_runtime_def)
  have rec: "\<lparr>accessToken = access_token ex_token, metadata = ex_metadata,
               connectedAt = new_date ex_runtime\<rparr> = ex_session"
    by (simp add: ex_session_def ex_token_def ex_runtime_def)
  have md: "accountname ex_metadata = ''Acme''" "email (login ex_metadata) = ''a@acme.com''"
    by (simp_all add: ex_metadata_def)
  have empty: "userSessions ex_world = Map.empty"
    by (simp add: ex_world_def)
  show ?thesis
    using oauth_token_session_id_from_header [OF hdr _ cd _ ex me, of ex_runtime ex_world]
    by (simp add: hdr gen rec md empty)
qed

section \<open>The response envelope\<close>

text \<open>
  C8, as stated, fails at the health endpoint: the body of \<open>GET /\<close> has neither a
  \<open>success\<close> nor a \<open>data\<close> field.
\<close>

theorem health_not_enveloped:
  "\<not> enveloped (health_handler ex_env)"
  by (simp add: enveloped_def envelope_ok_def health_handler_def)

text \<open>
  C8, amended. Every response of the six router endpoints, of the error-handling
  middleware and of the 404 handler is a JSON response with the envelope: on success
  \<open>data\<close> is present and not null and there is no \<open>message\<close>, on failure \<open>message\<close>
  is a string and \<open>data\<close> is null. The health endpoint answers with a bare
  information object that does not have the envelope.
\<close>

theorem api_responses_enveloped:
  "enveloped connect_handler
   \<and> enveloped (fst (oauth_token_handler rt P svc treq w))
   \<and> enveloped (fst (status_handler rt svc sreq w))
   \<and> enveloped (fst (lists_handler rt P svc lreq w))
   \<and> enveloped (fst (campaign_send_handler rt P svc creq w))
   \<and> enveloped (fst (disconnect_handler rt svc dreq w))
   \<and> enveloped (fst (error_middleware err w))
   \<and> enveloped not_found_handler
   \<and> \<not> enveloped (health_handler env)"
proof (intro conjI)
  show "enveloped connect_handler"
    by (simp add: enveloped_def envelope_ok_def connect_handler_def api_success_def)
  show "enveloped (fst (oauth_token_handler rt P svc treq w))"
    by (simp add: enveloped_def envelope_ok_def oauth_token_handler_def Let_def catch_500_def
        api_success_def api_failure_def exchangeCodeForToken_def getUserMetadata_def
        split: sum.splits)
  show "enveloped (fst (status_handler rt svc sreq w))"
    by (simp add: enveloped_def envelope_ok_def status_handler_def Let_def
        api_success_def split: option.splits)
  show "enveloped (fst (lists_handler rt P svc lreq w))"
    by (simp add: enveloped_def envelope_ok_def lists_handler_def Let_def catch_500_def
        api_success_def api_failure_def getLists_def split: option.splits sum.splits)
  show "enveloped (fst (campaign_send_handler rt P svc creq w))"
    by (simp add: enveloped_def envelope_ok_def campaign_send_handler_def Let_def catch_500_def
        api_success_def api_failure_def createCampaign_def setCampaignContent_def
        sendCampaign_def split: option.splits sum.splits)
  show "enveloped (fst (disconnect_handler rt svc dreq w))"
    by (simp add: enveloped_def envelope_ok_def disconnect_handler_def Let_def api_success_def)
  show "enveloped (fst (error_middleware err w))"
    by (simp add: enveloped_def envelope_ok_def error_middleware_def api_failure_def)
  show "enveloped not_found_handler"
    by (simp add: enveloped_def envelope_ok_def not_found_handler_def api_failure_def)
  show "\<not> enveloped (health_handler env)"
    by (simp add: enveloped_def envelope_ok_def health_handler_def)
qed

theorem api_responses_enveloped_witness:
  "enveloped (fst (campaign_send_handler ex_runtime (ex_provider ''boom'') ex_service
      (ex_request (Some ''s1'') (ex_draft [] ''x'')) ex_connected))
   \<and> fst (campaign_send_handler ex_runtime (ex_provider ''boom'') ex_service
      (ex_request (Some ''s1'') (ex_draft [] ''x'')) ex_connected)
     = Json 400 []
         (JObj [(''success'', JBool False),
                (''message'',
                 JStr ''Missing required fields: listId, subject, content, fromName, replyTo''),
                (''data'', JNull)])
   \<and> enveloped (fst (status_handler ex_runtime ex_service (ex_request (Some ''s1'') ()) ex_connected))
   \<and> fst (status_handler ex_runtime ex_service (ex_request (Some ''s1'') ()) ex_connected)
     = Json 200 []
         (JObj [(''success'', JBool True),
                (''data'', JObj [(''isConnected'', JBool True), (''accountName'', JStr ''Acme''),
                                 (''userEmail'', JStr ''a@acme.com'')])])
   \<and> json_body (health_handler ex_env)
     = Some (JObj [(''message'', JStr ''MailChimp Backend API is running!''),
              (''version'', JStr ''1.0.0''),
              (''documentation'', JStr ''http://localhost:3001/api-docs''),
              (''endpoints'', JArr [JStr ''GET /oauth-verify/mailchimp (OAuth callback)'',
                                    JStr ''GET /api/mailchimp/connect'',
                                    JStr ''POST /api/mailchimp/oauth/token'',
                                    JStr ''GET /api/mailchimp/status'',
                                    JStr ''GET /api/mailchimp/lists'',
                                    JStr ''POST /api/mailchimp/campaign/send'',
                                    JStr ''POST /api/mailchimp/disconnect''])])
   \<and> \<not> enveloped (health_handler ex_env)"
proof -
  have c: "fst (campaign_send_handler ex_runtime (ex_provider ''boom'') ex_service
      (ex_request (Some ''s1'') (ex_draft [] ''x'')) ex_connected)
     = Json 400 []
         (JObj [(''success'', JBool False),
                (''message'',
                 JStr ''Missing required fields: listId, subject, content, fromName, replyTo''),
                (''data'', JNull)])"
    by (simp add: campaign_send_handler_def Let_def ex_request_def ex_draft_def truthy_def
        api_failure_def)
  have s: "fst (status_handler ex_runtime ex_service (ex_request (Some ''s1'') ()) ex_connected)
     = Json 200 []
         (JObj [(''success'', JBool True),
                (''data'', JObj [(''isConnected'', JBool True), (''accountName'', JStr ''Acme''),
                                 (''userEmail'', JStr ''a@acme.com'')])])"
    by (simp add: status_handler_def Let_def ex_request_def getSessionId_def js_or_def
        getUserSession_def ex_connected_def ex_session_def ex_metadata_def api_success_def)
  have h: "json_body (health_handler ex_env)
     = Some (JObj [(''message'', JStr ''MailChimp Backend API is running!''),
              (''version'', JStr ''1.0.0''),
              (''documentation'', JStr ''http://localhost:3001/api-docs''),
              (''endpoints'', JArr [JStr ''GET /oauth-verify/mailchimp (OAuth callback)'',
                                    JStr ''GET /api/mailchimp/connect'',
                                    JStr ''POST /api/mailchimp/oauth/token'',
                                    JStr ''GET /api/mailchimp/status'',
                                    JStr ''GET /api/mailchimp/lists'',
                                    JStr ''POST /api/mailchimp/campaign/send'',
                                    JStr ''POST /api/mailchimp/disconnect''])])"
    by (simp add: json_body_def health_handler_def ex_env_def js_or_def)
  have all: "enveloped (fst (campaign_send_handler ex_runtime (ex_provider ''boom'') ex_service
        (ex_request (Some ''s1'') (ex_draft [] ''x'')) ex_connected))
      \<and> enveloped (fst (status_handler ex_runtime ex_service (ex_request (Some ''s1'') ())
          ex_connected))
      \<and> \<not> enveloped (health_handler ex_env)"
    using api_responses_enveloped [of ex_runtime "ex_provider ''boom''" ex_service
        "ex_token_request None" ex_connected "ex_request (Some ''s1'') ()"
        "ex_request (Some ''s1'') ()" "ex_request (Some ''s1'') (ex_draft [] ''x'')"
        "ex_request (Some ''s1'') ()" "[]" ex_env]
    by blast
  from all c s h show ?thesis by blast
qed

section \<open>Upstream failures and what the caller sees\<close>









end
